theory Spec2Isabelle
  imports Complex_Main
begin

section \<open>The outside world of the two modules\<close>

text \<open>
  The two source files are glue code: \<open>network_layout_main.py\<close> sequences three
  external GIS computations, \<open>CityEnergyAnalyst.py\<close> is an ArcGIS toolbox that shells out
  to the command line interface \<open>cea.cli\<close>. Everything they do is an effect on the world
  around them, so the model is a state-and-error monad over a record of that world.

  Exceptions are values of \<open>error\<close>; a computation returns \<open>Inl e\<close> when the Python
  raises \<open>e\<close> and the exception leaves the function.
\<close>

datatype error =
    AssertionError string
  | CalledProcessError int "string list" string
  | TypeError
  | IndexError
  | FormatError
  | OSError
  | StageError string

text \<open>
  A child process that runs to its end when nothing holds it up: what it writes to
  standard output and to standard error, its exit status, and \<open>linger\<close>, the number
  of times \<open>poll()\<close> still answers \<open>None\<close> after standard output has reached end of
  file (the child has closed the pipe and has not been reaped yet). A write to a pipe
  that is full blocks the child until the parent reads; \<open>stdout_before_block\<close> is how
  much of its standard output the child has written when its standard error output no
  longer fits into a pipe that nobody reads.
\<close>

record process =
  stdout :: string
  stderr :: string
  returncode :: int
  linger :: nat
  stdout_before_block :: nat

text \<open>
  A \<open>Popen\<close> object: the child, what the child has written to the standard output pipe
  and the parent has not read yet, whether the child is blocked for ever on a full
  standard error pipe (it then writes nothing more and never exits), and the polls that
  still answer \<open>None\<close> at end of file.
\<close>

record handle =
  h_child :: process
  h_unread :: string
  h_blocked :: bool
  h_polls :: nat

text \<open>The arguments of \<open>calc_steiner_spanning_tree\<close>, in the order of the call.\<close>

record steiner_args =
  s_path_potential_network :: string
  s_output_network_folder :: string
  s_output_substations_shp :: string
  s_output_edges :: string
  s_output_nodes :: string
  s_weight_field :: string
  s_type_mat_default :: string
  s_pipe_diameter_default :: real
  s_type_network :: string
  s_total_demand_location :: string
  s_create_plant :: bool
  s_allow_looped_networks :: bool
  s_optimization_flag :: bool
  s_plant_building_names :: "string list"
  s_disconnected_building_names :: "string list"

text \<open>
  A call of one of the stage functions of the thermal network layout, with its
  arguments. \<open>Calc_minimum_spanning_tree\<close> is the call that stands commented out in
  \<open>network_layout\<close> (lines 46-47 of the source).
\<close>

datatype stage_call =
    Calc_substation_location string string "string list"
  | Calc_connectivity_network string string string string
  | Calc_steiner_spanning_tree steiner_args
  | Calc_minimum_spanning_tree string string string string string string string real

datatype event =
    Spawn "string list"
  | PathExists string
  | AddMessage string
  | LogAppend string string
  | Stage stage_call

text \<open>
  The world:
  \<^item> \<open>pth_file\<close>: the content of \<open>~/cea_python.pth\<close>, \<open>None\<close> when the file cannot be
    opened or read;
  \<^item> \<open>home\<close>: the user's home directory, \<open>tempdir\<close>: \<open>tempfile.gettempdir()\<close>;
  \<^item> \<open>path_exists\<close>: the answer of \<open>os.path.exists\<close>;
  \<^item> \<open>can_start\<close>: whether the operating system can start the program of that name
    (\<open>CreateProcess\<close> succeeds);
  \<^item> \<open>cli\<close>: the behaviour of the child process started with a given argument vector;
  \<^item> \<open>pipe_buffer\<close>: the number of bytes a pipe holds before a write to it blocks;
  \<^item> \<open>py_format\<close>: Python's \<open>msg % kwargs\<close> for a dictionary of keyword arguments,
    \<open>None\<close> when the operator raises (a missing key, a malformed format);
  \<^item> \<open>stage_error\<close>: whether a stage function raises on a given call (the stage
    functions live in other modules of the repository and are opaque here);
  \<^item> \<open>files\<close>: the content of the files written in append mode (empty when absent);
  \<^item> \<open>events\<close>: the trace of effects, oldest first.
\<close>

record world =
  pth_file :: "string option"
  home :: string
  tempdir :: string
  path_exists :: "string \<Rightarrow> bool"
  can_start :: "string \<Rightarrow> bool"
  cli :: "string list \<Rightarrow> process"
  pipe_buffer :: nat
  py_format :: "string \<Rightarrow> (string \<times> string) list \<Rightarrow> string option"
  stage_error :: "stage_call \<Rightarrow> error option"
  files :: "string \<Rightarrow> string"
  events :: "event list"

type_synonym 'a io = "world \<Rightarrow> (error + 'a) \<times> world"

definition return_io :: "'a \<Rightarrow> 'a io" where
  "return_io x w = (Inr x, w)"

definition raise_io :: "error \<Rightarrow> 'a io" where
  "raise_io e w = (Inl e, w)"

definition bind_io :: "'a io \<Rightarrow> ('a \<Rightarrow> 'b io) \<Rightarrow> 'b io" where
  "bind_io m f w = (case m w of (Inl e, w') \<Rightarrow> (Inl e, w') | (Inr x, w') \<Rightarrow> f x w')"

definition emit :: "event \<Rightarrow> world \<Rightarrow> world" where
  "emit e w = w\<lparr>events := events w @ [e]\<rparr>"

text \<open>The effects a computation adds to the trace.\<close>

definition new_events :: "world \<Rightarrow> world \<Rightarrow> event list" where
  "new_events w w' = drop (length (events w)) (events w')"

section \<open>Strings and paths of the Python library\<close>

text \<open>
  \<open>str.strip()\<close>, \<open>str.rstrip()\<close> without argument remove the ASCII white space
  characters: space, tab, line feed, vertical tab, form feed, carriage return.
\<close>

definition is_space :: "char \<Rightarrow> bool" where
  "is_space c = (c = CHR '' '' \<or> c = CHR 0x09 \<or> c = CHR 0x0A \<or> c = CHR 0x0B
     \<or> c = CHR 0x0C \<or> c = CHR 0x0D)"

definition lstrip :: "string \<Rightarrow> string" where
  "lstrip s = dropWhile is_space s"

definition rstrip :: "string \<Rightarrow> string" where
  "rstrip s = rev (dropWhile is_space (rev s))"

definition strip :: "string \<Rightarrow> string" where
  "strip s = lstrip (rstrip s)"

definition endswith :: "string \<Rightarrow> string \<Rightarrow> bool" where
  "endswith s suffix = (take (length suffix) (rev s) = rev suffix)"

text \<open>
  \<open>file.readline()\<close> on a pipe: the next line with its line feed, or what is left when
  no line feed follows, and the empty string at end of file. The second component is
  what stays unread.
\<close>

fun readline :: "string \<Rightarrow> string \<times> string" where
  "readline [] = ([], [])"
| "readline (c # cs) =
     (if c = CHR 0x0A then ([c], cs)
      else (case readline cs of (line, unread) \<Rightarrow> (c # line, unread)))"

text \<open>
  \<open>os.path.join\<close> of the Windows host with a relative second component, and
  \<open>os.path.expanduser\<close> for a path that starts with \<open>~\<close> and a separator (the only
  forms the sources use).
\<close>

definition os_path_join :: "string \<Rightarrow> string \<Rightarrow> string" where
  "os_path_join a b =
     (if a = [] then b
      else if last a = CHR 0x5C \<or> last a = CHR ''/'' \<or> last a = CHR '':'' then a @ b
      else a @ [CHR 0x5C] @ b)"

definition expanduser :: "world \<Rightarrow> string \<Rightarrow> string" where
  "expanduser w path =
     (case path of
        c # rest \<Rightarrow> if c = CHR ''~'' then home w @ rest else path
      | [] \<Rightarrow> path)"

definition os_path_exists :: "string \<Rightarrow> world \<Rightarrow> bool \<times> world" where
  "os_path_exists path w = (path_exists w path, emit (PathExists path) w)"

section \<open>The ArcGIS toolbox: \<open>CityEnergyAnalyst.py\<close>\<close>

text \<open>
  The toolbox runs inside ArcGIS, under its Python 2 on Windows: what a pipe delivers
  is a \<open>str\<close>, so the comparison with \<open>''\<close> finds the end of file, and
  \<open>subprocess.STARTUPINFO()\<close>, which the helpers build first, exists and only hides
  the console window.
\<close>

subsection \<open>Shelling out\<close>

text \<open>
  The error \<open>get_python_exe\<close> raises, whatever went wrong in its \<open>try\<close> block:
  \<open>AssertionError("Could not find 'cea_python.pth' in home directory.")\<close>.
\<close>

definition pth_not_found :: error where
  "pth_not_found =
     AssertionError
       (''Could not find '' @ [CHR 0x27] @ ''cea_python.pth'' @ [CHR 0x27]
          @ '' in home directory.'')"

definition get_python_exe :: "string io" where
  "get_python_exe w =
     (case pth_file w of
        Some content \<Rightarrow> (Inr (strip content), w)
      | None \<Rightarrow> (Inl pth_not_found, w))"

text \<open>
  Starting a child fails with \<open>WindowsError\<close>, a subclass of \<open>OSError\<close>, when the
  program named first in the command cannot be started; no child exists then. The
  empty name starts nothing.
\<close>

definition startable :: "world \<Rightarrow> string list \<Rightarrow> bool" where
  "startable w command =
     (case command of
        [] \<Rightarrow> False
      | program # args \<Rightarrow> program \<noteq> [] \<and> can_start w program)"

text \<open>
  \<open>subprocess.check_output\<close> starts the command with a pipe for standard output only,
  reads the pipe while the child runs to its end, and returns what the child wrote;
  when the exit status is not zero it raises \<open>CalledProcessError\<close> with the status,
  the command and the output.
\<close>

definition check_output :: "string list \<Rightarrow> string io" where
  "check_output command w =
     (if \<not> startable w command then (Inl OSError, w)
      else (let p = cli w command; w' = emit (Spawn command) w
            in if returncode p = 0 then (Inr (stdout p), w')
               else (Inl (CalledProcessError (returncode p) command (stdout p)), w')))"

text \<open>
  \<open>subprocess.Popen(command, stdout=PIPE)\<close>, and with \<open>stderr=PIPE\<close> as well when
  \<open>stderr_pipe\<close> holds. The parent of this module reads standard output only, until
  its end. A child whose standard error goes to a pipe therefore blocks for ever once
  it has written more there than the pipe holds.
\<close>

definition popen :: "bool \<Rightarrow> string list \<Rightarrow> handle io" where
  "popen stderr_pipe command w =
     (if \<not> startable w command then (Inl OSError, w)
      else (let p = cli w command;
                full = stderr_pipe \<and> pipe_buffer w < length (stderr p)
            in (Inr \<lparr>h_child = p,
                     h_unread = (if full then take (stdout_before_block p) (stdout p) else stdout p),
                     h_blocked = full,
                     h_polls = linger p\<rparr>,
                emit (Spawn command) w)))"

definition cli_output :: "string \<Rightarrow> string list \<Rightarrow> string io" where
  "cli_output scenario_path args =
     bind_io get_python_exe (\<lambda>python_exe.
     bind_io (check_output
        ([python_exe, ''-m'', ''cea.cli'', ''--scenario'', scenario_path] @ args))
       (\<lambda>result. return_io (strip result)))"

text \<open>
  \<open>get_weather(weather_name='default')\<close>: the argument is \<open>None\<close> when the caller
  leaves it out.
\<close>

definition get_weather :: "string option \<Rightarrow> string io" where
  "get_weather weather_name =
     cli_output ''''
       [''weather-path'', (case weather_name of None \<Rightarrow> ''default'' | Some n \<Rightarrow> n)]"

definition get_radiation :: "string \<Rightarrow> string io" where
  "get_radiation scenario_path = cli_output scenario_path [''locate'', ''get_radiation'']"

definition get_surface_properties :: "string \<Rightarrow> string io" where
  "get_surface_properties scenario_path =
     cli_output scenario_path [''locate'', ''get_surface_properties'']"

text \<open>
  The generator \<open>get_weather_names_inner\<close> reads the child's standard output line by
  line until \<open>readline\<close> answers the empty string, and yields each line without its
  trailing white space. The exit status is never looked at.
\<close>

lemma readline_length: "length (fst (readline s)) + length (snd (readline s)) = length s"
  by (induction s) (auto split: prod.splits)

lemma readline_shorter: "fst (readline s) \<noteq> [] \<Longrightarrow> length (snd (readline s)) < length s"
  using readline_length [of s] by (cases "fst (readline s)") auto

lemma readline_empty: "fst (readline s) = [] \<longleftrightarrow> s = []"
  by (cases s) (auto split: prod.splits)

function get_weather_names_inner :: "string \<Rightarrow> string list" where
  "get_weather_names_inner unread =
     (let line = fst (readline unread)
      in if line = [] then []
         else rstrip line # get_weather_names_inner (snd (readline unread)))"
  by pat_completeness auto
termination
  by (relation "measure length") (auto simp: readline_shorter)

definition get_weather_names :: "string list io" where
  "get_weather_names =
     bind_io get_python_exe (\<lambda>python_exe.
     bind_io (popen False [python_exe, ''-u'', ''-m'', ''cea.cli'', ''weather-files''])
       (\<lambda>p. return_io (get_weather_names_inner (h_unread p))))"

subsection \<open>Logging\<close>

text \<open>
  \<open>add_message(msg, **kwargs)\<close>: the message is formatted only when keyword arguments
  are given; it goes to \<open>arcpy.AddMessage\<close> and is then written to
  \<open>cea.log\<close> in the temporary directory, opened in append mode.
\<close>

definition add_message :: "string \<Rightarrow> (string \<times> string) list \<Rightarrow> unit io" where
  "add_message msg kwargs w =
     (case (if kwargs \<noteq> [] then py_format w msg kwargs else Some msg) of
        None \<Rightarrow> (Inl FormatError, w)
      | Some m \<Rightarrow>
          (let log_file = os_path_join (tempdir w) ''cea.log'';
               w1 = emit (AddMessage m) w;
               w2 = emit (LogAppend log_file m)
                      (w1\<lparr>files := (files w1)(log_file := files w1 log_file @ m)\<rparr>)
           in (Inr (), w2)))"

subsection \<open>Running the command line interface\<close>

text \<open>
  A function of this module that waits for a child may never return. Its result is
  \<open>None\<close> then, and otherwise what the world has become together with the value or the
  exception.
\<close>

type_synonym 'a run = "world \<Rightarrow> ((error + 'a) \<times> world) option"

definition bind_run :: "'a io \<Rightarrow> ('a \<Rightarrow> 'b run) \<Rightarrow> 'b run" where
  "bind_run m f w = (case m w of (Inl e, w') \<Rightarrow> Some (Inl e, w') | (Inr x, w') \<Rightarrow> f x w')"

text \<open>
  \<open>process.stdout.readline()\<close> waits until a whole line or the end of the file is
  there. A blocked child keeps the pipe open and writes no more: the call never returns
  (\<open>None\<close>) unless a whole line is still unread.
\<close>

definition stdout_readline :: "handle \<Rightarrow> (string \<times> handle) option" where
  "stdout_readline h =
     (let line = fst (readline (h_unread h))
      in if h_blocked h \<and> (line = [] \<or> last line \<noteq> CHR 0x0A) then None
         else Some (line, h\<lparr>h_unread := snd (readline (h_unread h))\<rparr>))"

text \<open>
  \<open>process.poll()\<close>, as \<open>run_cli\<close> uses it: it is only asked once \<open>readline\<close> has
  answered the empty string. \<open>process.communicate()\<close> reads both pipes to their end and
  returns what was still unread; \<open>run_cli\<close> calls it after the loop, when the child
  has exited.
\<close>

definition poll :: "handle \<Rightarrow> int option \<times> handle" where
  "poll h = (if h_polls h = 0 then (Some (returncode (h_child h)), h)
             else (None, h\<lparr>h_polls := h_polls h - 1\<rparr>))"

definition communicate :: "handle \<Rightarrow> string \<times> string" where
  "communicate h = (h_unread h, stderr (h_child h))"

text \<open>
  The \<open>while True\<close> loop of \<open>run_cli\<close>. Python evaluates \<open>process.poll()\<close> only
  when \<open>next_line\<close> is empty. The loop reads standard output and nothing else, so it
  never ends when the child is blocked on its standard error pipe. A child that never
  exits for reasons of its own is outside the model.
\<close>

partial_function (option) run_cli_loop :: "handle \<Rightarrow> world \<Rightarrow> ((error + handle) \<times> world) option"
where
  "run_cli_loop h w =
     (case stdout_readline h of
        None \<Rightarrow> None
      | Some (next_line, h1) \<Rightarrow>
          if next_line = [] \<and> fst (poll h1) \<noteq> None then Some (Inr (snd (poll h1)), w)
          else (case add_message (rstrip next_line) [] w of
                  (Inl e, w') \<Rightarrow> Some (Inl e, w')
                | (Inr u, w') \<Rightarrow>
                    run_cli_loop (if next_line = [] then snd (poll h1) else h1) w'))"

text \<open>
  \<open>run_cli(scenario_path, *args)\<close>. The scenario path comes from a parameter's
  \<open>valueAsText\<close> and may be \<open>None\<close>; \<open>Popen\<close> then fails to build the command line
  with a \<open>TypeError\<close>, after the list of arguments has been evaluated.
\<close>

definition run_cli :: "string option \<Rightarrow> string list \<Rightarrow> unit run" where
  "run_cli scenario_path args =
     bind_run get_python_exe (\<lambda>python_exe.
       case scenario_path of
         None \<Rightarrow> (\<lambda>w. Some (Inl TypeError, w))
       | Some sp \<Rightarrow>
           bind_run
             (popen True ([python_exe, ''-u'', ''-m'', ''cea.cli'', ''--scenario'', sp] @ args))
             (\<lambda>process w.
                case run_cli_loop process w of
                  None \<Rightarrow> None
                | Some (Inl e, w') \<Rightarrow> Some (Inl e, w')
                | Some (Inr process', w') \<Rightarrow>
                    Some (bind_io (add_message (fst (communicate process')) []) (\<lambda>u.
                            add_message (snd (communicate process')) []) w')))"

subsection \<open>The Demand tool\<close>

text \<open>
  An \<open>arcpy.Parameter\<close>, as far as the tool uses it: its text value (\<open>None\<close> when
  unset) and the error message \<open>setErrorMessage\<close> stores.
\<close>

record parameter =
  valueAsText :: "string option"
  message :: "string option"

definition setErrorMessage :: "nat \<Rightarrow> string \<Rightarrow> parameter list \<Rightarrow> parameter list" where
  "setErrorMessage i msg parameters = parameters[i := (parameters ! i)\<lparr>message := Some msg\<rparr>]"

definition updateMessages ::
  "parameter list \<Rightarrow> world \<Rightarrow> (error + unit) \<times> parameter list \<times> world" where
  "updateMessages parameters w =
     (if parameters = [] then (Inl IndexError, parameters, w)
      else case valueAsText (parameters ! 0) of
        None \<Rightarrow> (Inr (), parameters, w)
      | Some scenario_path \<Rightarrow>
          (case os_path_exists scenario_path w of (found, w1) \<Rightarrow>
           if \<not> found
           then (Inr (),
                 setErrorMessage 0 (''Scenario folder not found: '' @ scenario_path) parameters,
                 w1)
           else (case get_radiation scenario_path w1 of
              (Inl e, w2) \<Rightarrow> (Inl e, parameters, w2)
            | (Inr radiation, w2) \<Rightarrow>
               (case os_path_exists radiation w2 of (found_radiation, w3) \<Rightarrow>
                let parameters1 =
                  (if \<not> found_radiation
                   then setErrorMessage 0
                     ''No radiation data found for scenario. Run radiation script first.''
                     parameters
                   else parameters)
                in (case get_surface_properties scenario_path w3 of
                   (Inl e, w4) \<Rightarrow> (Inl e, parameters1, w4)
                 | (Inr surface, w4) \<Rightarrow>
                    (case os_path_exists surface w4 of (found_surface, w5) \<Rightarrow>
                     (Inr (),
                      (if \<not> found_surface
                       then setErrorMessage 0
                         ''No radiation data found for scenario. Run radiation script first.''
                         parameters1
                       else parameters1),
                      w5)))))))"

text \<open>
  Lines 92-97 of \<open>DemandTool.execute\<close>: the weather path the tool resolves from the
  text of the weather parameter. \<open>None in names\<close> is false, and
  \<open>os.path.exists(None)\<close> raises \<open>TypeError\<close>.
\<close>

definition execute_weather_path :: "string option \<Rightarrow> string io" where
  "execute_weather_path weather_name =
     bind_io get_weather_names (\<lambda>names.
       case weather_name of
         None \<Rightarrow> raise_io TypeError
       | Some name \<Rightarrow>
           if name \<in> set names then get_weather (Some name)
           else (\<lambda>w. case os_path_exists name w of (found, w1) \<Rightarrow>
                   if found \<and> endswith name ''.epw'' then (Inr name, w1)
                   else get_weather None w1))"

definition execute :: "parameter list \<Rightarrow> unit run" where
  "execute parameters =
     (if length parameters < 2 then (\<lambda>w. Some (Inl IndexError, w))
      else (let scenario_path = valueAsText (parameters ! 0);
                weather_name = valueAsText (parameters ! 1)
            in bind_run (execute_weather_path weather_name) (\<lambda>weather_path.
                 run_cli scenario_path [''demand'', ''--weather'', weather_path])))"

section \<open>The network layout: \<open>network_layout_main.py\<close>\<close>

text \<open>
  The configuration sections and the input locator are objects of other modules; the
  model keeps the attributes and methods \<open>network_layout\<close> reads.
\<close>

record network_layout_section =
  type_mat :: string
  pipe_diameter :: real
  network_type :: string
  create_plant :: bool
  buildings :: "string list"
  allow_looped_networks :: bool

record thermal_network_section =
  disconnected_buildings :: "string list"

record config =
  scenario :: string
  network_layout_cfg :: network_layout_section
  thermal_network_cfg :: thermal_network_section

record locator =
  get_zone_geometry :: string
  get_temporary_file :: "string \<Rightarrow> string"
  get_electric_networks_folder :: string
  get_total_demand :: string
  get_network_layout_edges_shapefile :: "string \<Rightarrow> string \<Rightarrow> string"
  get_network_layout_nodes_shapefile :: "string \<Rightarrow> string \<Rightarrow> string"
  get_input_network_folder :: "string \<Rightarrow> string \<Rightarrow> string"

text \<open>
  Calling a stage function: the call is made, and the exception the stage raises, if
  any, leaves \<open>network_layout\<close> (nothing there catches it).
\<close>

definition call_stage :: "stage_call \<Rightarrow> unit io" where
  "call_stage c w =
     (case stage_error w c of
        None \<Rightarrow> (Inr (), emit (Stage c) w)
      | Some e \<Rightarrow> (Inl e, emit (Stage c) w))"

definition network_layout ::
  "config \<Rightarrow> locator \<Rightarrow> string list \<Rightarrow> string \<Rightarrow> string \<Rightarrow> bool \<Rightarrow> unit io" where
  "network_layout config locator plant_building_names input_path_name output_name_network
       optimization_flag w =
     (let weight_field = ''Shape_Leng'';
          type_mat_default = type_mat (network_layout_cfg config);
          pipe_diameter_default = pipe_diameter (network_layout_cfg config);
          type_network = network_type (network_layout_cfg config);
          create_plant = create_plant (network_layout_cfg config);
          input_buildings_shp = get_zone_geometry locator;
          connected_buildings = buildings (network_layout_cfg config);
          output_substations_shp = get_temporary_file locator ''nodes_buildings.shp'';
          input_paths_shp =
            get_electric_networks_folder locator @ ''/'' @ input_path_name @ ''.shp'';
          path_potential_network = get_temporary_file locator ''potential_network.shp'';
          path_default_arcgis_db =
            expanduser w
              (os_path_join (os_path_join (os_path_join ''~'' ''Documents'') ''ArcGIS'')
                 ''Default.gdb'');
          total_demand_location = get_total_demand locator
      in bind_io
           (call_stage (Calc_substation_location input_buildings_shp output_substations_shp
              connected_buildings))
           (\<lambda>u. bind_io
              (call_stage (Calc_connectivity_network path_default_arcgis_db input_paths_shp
                 output_substations_shp path_potential_network))
              (\<lambda>u.
                 let output_edges =
                       get_network_layout_edges_shapefile locator type_network
                         output_name_network;
                     output_nodes =
                       get_network_layout_nodes_shapefile locator type_network
                         output_name_network;
                     output_network_folder =
                       get_input_network_folder locator type_network output_name_network;
                     disconnected_building_names =
                       disconnected_buildings (thermal_network_cfg config)
                 in call_stage (Calc_steiner_spanning_tree
                      \<lparr>s_path_potential_network = path_potential_network,
                       s_output_network_folder = output_network_folder,
                       s_output_substations_shp = output_substations_shp,
                       s_output_edges = output_edges,
                       s_output_nodes = output_nodes,
                       s_weight_field = weight_field,
                       s_type_mat_default = type_mat_default,
                       s_pipe_diameter_default = pipe_diameter_default,
                       s_type_network = type_network,
                       s_total_demand_location = total_demand_location,
                       s_create_plant = create_plant,
                       s_allow_looped_networks =
                         allow_looped_networks (network_layout_cfg config),
                       s_optimization_flag = optimization_flag,
                       s_plant_building_names = plant_building_names,
                       s_disconnected_building_names = disconnected_building_names\<rparr>)))
           w)"

text \<open>
  \<open>main(config)\<close>; the constructor \<open>cea.inputlocator.InputLocator\<close> is a parameter.
  The defaults of \<open>network_layout\<close> are the empty output name and \<open>False\<close>.
\<close>

definition main :: "(string \<Rightarrow> locator) \<Rightarrow> config \<Rightarrow> unit io" where
  "main InputLocator config w =
     (case os_path_exists (scenario config) w of (found, w1) \<Rightarrow>
      if \<not> found then (Inl (AssertionError (''Scenario not found: '' @ scenario config)), w1)
      else (let locator = InputLocator (scenario config);
                connected_building_names = []
            in network_layout config locator connected_building_names ''streets'' '''' False w1))"

section \<open>Reading a trace\<close>





text \<open>Recognisers for the two spanning tree calls in a trace.\<close>

fun is_minimum_spanning_tree_call :: "event \<Rightarrow> bool" where
  "is_minimum_spanning_tree_call (Stage (Calc_minimum_spanning_tree a b c d e f g h)) = True"
| "is_minimum_spanning_tree_call e = False"

fun is_steiner_call :: "event \<Rightarrow> bool" where
  "is_steiner_call (Stage (Calc_steiner_spanning_tree args)) = True"
| "is_steiner_call e = False"

section \<open>Sample worlds\<close>

text \<open>
  Concrete worlds for the examples below: a Windows host with home directory
  \<open>C:/Users/cea\<close> and temporary directory \<open>C:/Temp\<close>, the given content of the
  interpreter path file, the given existing paths and the given command line interface,
  \<open>python.exe\<close> as the only program that can be started, pipes of 4096 bytes,
  no stage that raises, empty files and an empty trace. The formatting operator of
  the sample world knows the format string \<open>%(x)s\<close> (the value of the key \<open>x\<close>, an error when the key is
  missing) and the strings without a per cent sign, which it leaves as they are.
\<close>

definition sample_world ::
  "string option \<Rightarrow> string list \<Rightarrow> (string list \<Rightarrow> process) \<Rightarrow> world" where
  "sample_world pth paths child =
     \<lparr>pth_file = pth, home = ''C:/Users/cea'', tempdir = ''C:/Temp'',
      path_exists = (\<lambda>path. path \<in> set paths),
      can_start = (\<lambda>program. program = ''python.exe''), cli = child, pipe_buffer = 4096,
      py_format = (\<lambda>msg kwargs.
         if msg = ''%(x)s'' then map_of kwargs ''x''
         else if CHR ''%'' \<in> set msg then None else Some msg),
      stage_error = (\<lambda>c. None), files = (\<lambda>path. []), events = []\<rparr>"

definition exits_with :: "int \<Rightarrow> string \<Rightarrow> process" where
  "exits_with status out =
     \<lparr>stdout = out, stderr = [], returncode = status, linger = 0, stdout_before_block = 0\<rparr>"

text \<open>
  A command line interface that answers the two \<open>locate\<close> queries with paths
  below \<open>C:/s/outputs\<close> and exits with the given status.
\<close>

definition locate_child :: "int \<Rightarrow> string list \<Rightarrow> process" where
  "locate_child status command =
     (if last command = ''get_radiation''
      then exits_with status (''C:/s/outputs/radiation.csv'' @ [CHR 0x0D, CHR 0x0A])
      else exits_with status (''C:/s/outputs/properties.csv'' @ [CHR 0x0D, CHR 0x0A]))"

text \<open>
  A command line interface with two registered weather names, \<open>Zug\<close> and
  \<open>Zurich.epw\<close>, that answers \<open>weather-path NAME\<close> with
  \<open>C:/cea/weather/NAME.epw\<close>.
\<close>

definition weather_child :: "string list \<Rightarrow> process" where
  "weather_child command =
     (if last command = ''weather-files''
      then exits_with 0 (''Zug'' @ [CHR 0x0D, CHR 0x0A] @ ''Zurich.epw'' @ [CHR 0x0D, CHR 0x0A])
      else exits_with 0 (''C:/cea/weather/'' @ last command @ ''.epw'' @ [CHR 0x0D, CHR 0x0A]))"

text \<open>A child that prints two lines and writes a warning to standard error.\<close>

definition demand_child :: "string list \<Rightarrow> process" where
  "demand_child command =
     \<lparr>stdout = ''Running demand'' @ [CHR 0x0D, CHR 0x0A] @ ''Done'' @ [CHR 0x0D, CHR 0x0A],
      stderr = ''warning'', returncode = 0, linger = 0, stdout_before_block = 0\<rparr>"

text \<open>
  A configuration, a locator, a first stage that raises and a second stage that raises,
  for the examples.
\<close>

definition sample_config :: config where
  "sample_config =
     \<lparr>scenario = ''C:/s'',
      network_layout_cfg =
        \<lparr>type_mat = ''T1'', pipe_diameter = 150, network_type = ''DH'', create_plant = True,
         buildings = [''B1'', ''B2''], allow_looped_networks = False\<rparr>,
      thermal_network_cfg = \<lparr>disconnected_buildings = [''B3'']\<rparr>\<rparr>"

definition sample_locator :: locator where
  "sample_locator =
     \<lparr>get_zone_geometry = ''C:/s/zone.shp'',
      get_temporary_file = (\<lambda>name. ''C:/Temp/'' @ name),
      get_electric_networks_folder = ''C:/s/networks'',
      get_total_demand = ''C:/s/Total_demand.csv'',
      get_network_layout_edges_shapefile =
        (\<lambda>type_network name. ''C:/s/'' @ type_network @ ''/edges.shp''),
      get_network_layout_nodes_shapefile =
        (\<lambda>type_network name. ''C:/s/'' @ type_network @ ''/nodes.shp''),
      get_input_network_folder = (\<lambda>type_network name. ''C:/s/'' @ type_network)\<rparr>"

definition substations_fail :: "stage_call \<Rightarrow> error option" where
  "substations_fail c =
     (case c of
        Calc_substation_location input_shp output_shp names \<Rightarrow>
          Some (StageError ''zone.shp not found'')
      | _ \<Rightarrow> None)"

definition connectivity_fails :: "stage_call \<Rightarrow> error option" where
  "connectivity_fails c =
     (case c of
        Calc_connectivity_network db paths_shp substations_shp potential_shp \<Rightarrow>
          Some (StageError ''streets.shp not found'')
      | _ \<Rightarrow> None)"

section \<open>Properties of the toolbox\<close>

lemmas io_defs = bind_io_def return_io_def raise_io_def emit_def

lemmas str_defs = strip_def lstrip_def rstrip_def is_space_def

lemma get_python_exe_None: "pth_file w = None \<Longrightarrow> get_python_exe w = (Inl pth_not_found, w)"
  by (simp add: get_python_exe_def)

lemma get_python_exe_Some:
  "pth_file w = Some content \<Longrightarrow> get_python_exe w = (Inr (strip content), w)"
  by (simp add: get_python_exe_def)

lemma bind_io_Inl: "m w = (Inl e, w') \<Longrightarrow> bind_io m f w = (Inl e, w')"
  by (simp add: bind_io_def)

lemma bind_io_Inr: "m w = (Inr x, w') \<Longrightarrow> bind_io m f w = f x w'"
  by (simp add: bind_io_def)

subsection \<open>The interpreter path file\<close>

text \<open>
  Claim C3. When \<open>~/cea_python.pth\<close> is absent or unreadable, each helper that runs
  the command line interface (\<open>_cli_output\<close>, \<open>run_cli\<close>, \<open>get_weather_names\<close>)
  fails with the assertion error of \<open>get_python_exe\<close>, and the world is as it was:
  no child process has been started.
\<close>

theorem cli_helpers_need_pth_file:
  assumes "pth_file w = None"
  shows "cli_output scenario_path args w = (Inl pth_not_found, w)
       \<and> run_cli scenario_path_opt args' w = Some (Inl pth_not_found, w)
       \<and> get_weather_names w = (Inl pth_not_found, w)"
  using assms
  by (simp add: cli_output_def run_cli_def get_weather_names_def bind_io_Inl bind_run_def
        get_python_exe_None)

theorem cli_helpers_need_pth_file_witness:
  "pth_file (sample_world None [] (locate_child 0)) = None
   \<and> cli_output ''C:/s'' [''locate'', ''get_radiation'']
         (sample_world None [] (locate_child 0))
       = (Inl pth_not_found, sample_world None [] (locate_child 0))
   \<and> run_cli (Some ''C:/s'') [''demand'']
         (sample_world None [] (locate_child 0))
       = Some (Inl pth_not_found, sample_world None [] (locate_child 0))
   \<and> get_weather_names (sample_world None [] (locate_child 0))
       = (Inl pth_not_found, sample_world None [] (locate_child 0))"
proof -
  have absent: "pth_file (sample_world None [] (locate_child 0)) = None"
    by (simp add: sample_world_def)
  show ?thesis
    using absent
      cli_helpers_need_pth_file [OF absent, of "''C:/s''" "[''locate'', ''get_radiation'']"
        "Some ''C:/s''" "[''demand'']"]
    by simp
qed

subsection \<open>Exit status of the helper queries\<close>

lemma startable_Cons [simp]:
  "startable w (program # args) = (program \<noteq> [] \<and> can_start w program)"
  by (simp add: startable_def)

lemma cli_output_run:
  assumes "pth_file w = Some content"
  shows "cli_output scenario_path args w =
     (if \<not> startable w
            ([strip content, ''-m'', ''cea.cli'', ''--scenario'', scenario_path] @ args)
      then (Inl OSError, w)
      else
       (if returncode (cli w ([strip content, ''-m'', ''cea.cli'', ''--scenario'', scenario_path] @ args)) = 0
        then Inr (strip (stdout (cli w ([strip content, ''-m'', ''cea.cli'', ''--scenario'', scenario_path] @ args))))
        else Inl (CalledProcessError
               (returncode (cli w ([strip content, ''-m'', ''cea.cli'', ''--scenario'', scenario_path] @ args)))
               ([strip content, ''-m'', ''cea.cli'', ''--scenario'', scenario_path] @ args)
               (stdout (cli w ([strip content, ''-m'', ''cea.cli'', ''--scenario'', scenario_path] @ args)))),
        emit (Spawn ([strip content, ''-m'', ''cea.cli'', ''--scenario'', scenario_path] @ args)) w))"
  using assms
  by (simp add: cli_output_def bind_io_def get_python_exe_def check_output_def return_io_def Let_def)

text \<open>
  Claim C2, as amended. The claim says that the helper queries \<open>get_weather\<close>,
  \<open>get_radiation\<close> and \<open>get_surface_properties\<close> do not distinguish a non-zero exit
  status from success. They all go through \<open>_cli_output\<close>, which calls
  \<open>subprocess.check_output\<close>. With a readable interpreter path file there are three
  outcomes: when the interpreter named there cannot be started, the query raises
  \<open>OSError\<close> and no child exists; otherwise the caller receives the trimmed standard
  output exactly when the child exits with status 0, and a \<open>CalledProcessError\<close>
  carrying the status, the command and the output when it exits with another status.
\<close>

theorem cli_output_exit_status:
  assumes "pth_file w = Some content"
  shows "(let command = [strip content, ''-m'', ''cea.cli'', ''--scenario'', scenario_path] @ args;
              child = cli w command
          in cli_output scenario_path args w =
               (if \<not> startable w command then (Inl OSError, w)
                else (if returncode child = 0 then Inr (strip (stdout child))
                      else Inl (CalledProcessError (returncode child) command (stdout child)),
                      emit (Spawn command) w)))
       \<and> get_weather weather_name =
           cli_output [] [''weather-path'', (case weather_name of None \<Rightarrow> ''default'' | Some n \<Rightarrow> n)]
       \<and> get_radiation scenario_path = cli_output scenario_path [''locate'', ''get_radiation'']
       \<and> get_surface_properties scenario_path =
           cli_output scenario_path [''locate'', ''get_surface_properties'']"
  using cli_output_run [OF assms]
  by (simp add: Let_def get_weather_def get_radiation_def get_surface_properties_def)

text \<open>
  The claim as stated fails: the same query with the same output returns the path when
  the child exits with 0 and raises when it exits with 1.
\<close>

theorem get_radiation_exit_status_counterexample:
  "fst (get_radiation ''C:/s'' (sample_world (Some ''python.exe'') [] (locate_child 1)))
   = Inl (CalledProcessError 1
       [''python.exe'', ''-m'', ''cea.cli'', ''--scenario'', ''C:/s'', ''locate'', ''get_radiation'']
       (''C:/s/outputs/radiation.csv'' @ [CHR 0x0D, CHR 0x0A]))
   \<and> fst (get_radiation ''C:/s'' (sample_world (Some ''python.exe'') [] (locate_child 0)))
   = Inr ''C:/s/outputs/radiation.csv''"
  by (simp add: get_radiation_def cli_output_def get_python_exe_def check_output_def
        sample_world_def locate_child_def exits_with_def io_defs str_defs)

theorem cli_output_exit_status_witness:
  "pth_file (sample_world (Some ''python.exe'') [] (locate_child 0)) = Some ''python.exe''
   \<and> fst (cli_output ''C:/s'' [''locate'', ''get_radiation'']
       (sample_world (Some ''python.exe'') [] (locate_child 0)))
      = Inr ''C:/s/outputs/radiation.csv''
   \<and> pth_file (sample_world (Some ''missing.exe'') [] (locate_child 0)) = Some ''missing.exe''
   \<and> cli_output ''C:/s'' [''locate'', ''get_radiation'']
       (sample_world (Some ''missing.exe'') [] (locate_child 0))
      = (Inl OSError, sample_world (Some ''missing.exe'') [] (locate_child 0))"
proof -
  have present:
    "pth_file (sample_world (Some ''python.exe'') [] (locate_child 0)) = Some ''python.exe''"
    by (simp add: sample_world_def)
  have missing:
    "pth_file (sample_world (Some ''missing.exe'') [] (locate_child 0)) = Some ''missing.exe''"
    by (simp add: sample_world_def)
  have returned: "fst (cli_output ''C:/s'' [''locate'', ''get_radiation'']
       (sample_world (Some ''python.exe'') [] (locate_child 0)))
      = Inr ''C:/s/outputs/radiation.csv''"
    using cli_output_exit_status [OF present, of "''C:/s''" "[''locate'', ''get_radiation'']"]
    by (simp add: sample_world_def locate_child_def exits_with_def str_defs Let_def)
  have not_started: "cli_output ''C:/s'' [''locate'', ''get_radiation'']
       (sample_world (Some ''missing.exe'') [] (locate_child 0))
      = (Inl OSError, sample_world (Some ''missing.exe'') [] (locate_child 0))"
    using cli_output_exit_status [OF missing, of "''C:/s''" "[''locate'', ''get_radiation'']"]
    by (simp add: sample_world_def str_defs Let_def)
  show ?thesis
    using present missing returned not_started by (intro conjI)
qed

subsection \<open>Validation of the scenario parameter\<close>

text \<open>
  Claim C10. When the text value of the scenario parameter is \<open>None\<close>,
  \<open>updateMessages\<close> returns at once: no parameter gets an error message, and the
  world is unchanged, so no existence check was made and no child process started.
\<close>

theorem updateMessages_unset:
  assumes "parameters \<noteq> []" and "valueAsText (parameters ! 0) = None"
  shows "updateMessages parameters w = (Inr (), parameters, w)"
  using assms by (simp add: updateMessages_def)

theorem updateMessages_unset_witness:
  "[\<lparr>valueAsText = None, message = None\<rparr>, \<lparr>valueAsText = Some ''Zug'', message = None\<rparr>] \<noteq> []
   \<and> valueAsText ([\<lparr>valueAsText = None, message = None\<rparr>,
                    \<lparr>valueAsText = Some ''Zug'', message = None\<rparr>] ! 0) = None
   \<and> updateMessages [\<lparr>valueAsText = None, message = None\<rparr>,
                     \<lparr>valueAsText = Some ''Zug'', message = None\<rparr>]
        (sample_world None [] (locate_child 1))
      = (Inr (), [\<lparr>valueAsText = None, message = None\<rparr>,
                  \<lparr>valueAsText = Some ''Zug'', message = None\<rparr>],
         sample_world None [] (locate_child 1))"
  using updateMessages_unset [of "[\<lparr>valueAsText = None, message = None\<rparr>,
                     \<lparr>valueAsText = Some ''Zug'', message = None\<rparr>]"
      "sample_world None [] (locate_child 1)"]
  by simp

lemma setErrorMessage_twice:
  "setErrorMessage 0 m (setErrorMessage 0 m' ps) = setErrorMessage 0 m ps"
  by (cases ps) (simp_all add: setErrorMessage_def)

lemma emit_emit_pth [simp]: "pth_file (emit e w) = pth_file w"
  and emit_cli [simp]: "cli (emit e w) = cli w"
  and emit_path_exists [simp]: "path_exists (emit e w) = path_exists w"
  and emit_events [simp]: "events (emit e w) = events w @ [e]"
  by (simp_all add: emit_def)

text \<open>
  Claim C6, as amended. For a scenario path that is set, \<open>updateMessages\<close> stores
  the message \<open>Scenario folder not found\<close> exactly when the path does not exist, and
  then checks nothing else. When the path exists it asks the command line interface
  for the radiation file and then for the surface properties file; when both queries
  return (the interpreter path file is readable, the interpreter can be started and
  both children exit with status 0), both existence checks are made, whatever the first
  one found, and the error message is stored when either file is missing. A query that
  raises (the assertion error of \<open>get_python_exe\<close>, \<open>OSError\<close> when the interpreter
  cannot be started, \<open>CalledProcessError\<close> for another exit status) ends
  \<open>updateMessages\<close> before the checks that follow.
\<close>

theorem updateMessages_checks:
  assumes "parameters \<noteq> []"
    and "valueAsText (parameters ! 0) = Some scenario_path"
  shows
    "updateMessages parameters w =
       (if \<not> path_exists w scenario_path
        then (Inr (),
              setErrorMessage 0 (''Scenario folder not found: '' @ scenario_path) parameters,
              w\<lparr>events := events w @ [PathExists scenario_path]\<rparr>)
        else case pth_file w of
          None \<Rightarrow>
            (Inl pth_not_found, parameters, w\<lparr>events := events w @ [PathExists scenario_path]\<rparr>)
        | Some content \<Rightarrow>
            (let radiation_command =
                   [strip content, ''-m'', ''cea.cli'', ''--scenario'', scenario_path,
                    ''locate'', ''get_radiation''];
                 surface_command =
                   [strip content, ''-m'', ''cea.cli'', ''--scenario'', scenario_path,
                    ''locate'', ''get_surface_properties''];
                 radiation_child = cli w radiation_command;
                 surface_child = cli w surface_command;
                 radiation = strip (stdout radiation_child);
                 surface = strip (stdout surface_child);
                 no_data = ''No radiation data found for scenario. Run radiation script first.''
             in if \<not> startable w radiation_command
                then (Inl OSError, parameters,
                      w\<lparr>events := events w @ [PathExists scenario_path]\<rparr>)
                else if returncode radiation_child \<noteq> 0
                then (Inl (CalledProcessError (returncode radiation_child) radiation_command
                             (stdout radiation_child)),
                      parameters,
                      w\<lparr>events := events w
                         @ [PathExists scenario_path, Spawn radiation_command]\<rparr>)
                else if returncode surface_child \<noteq> 0
                then (Inl (CalledProcessError (returncode surface_child) surface_command
                             (stdout surface_child)),
                      (if path_exists w radiation then parameters
                       else setErrorMessage 0 no_data parameters),
                      w\<lparr>events := events w
                         @ [PathExists scenario_path, Spawn radiation_command,
                            PathExists radiation, Spawn surface_command]\<rparr>)
                else (Inr (),
                      (if path_exists w radiation \<and> path_exists w surface then parameters
                       else setErrorMessage 0 no_data parameters),
                      w\<lparr>events := events w
                         @ [PathExists scenario_path, Spawn radiation_command,
                            PathExists radiation, Spawn surface_command,
                            PathExists surface]\<rparr>)))"
proof (cases "pth_file w")
  case None
  then have "cli_output scenario_path args w' = (Inl pth_not_found, w')"
    if "pth_file w' = pth_file w" for args w'
    using that by (simp add: cli_output_def bind_io_def get_python_exe_def)
  with assms None show ?thesis
    by (simp add: updateMessages_def os_path_exists_def get_radiation_def emit_def)
next
  case (Some content)
  with assms show ?thesis
    by (simp add: updateMessages_def os_path_exists_def get_radiation_def
          get_surface_properties_def cli_output_run Let_def setErrorMessage_twice emit_def)
qed

text \<open>
  The claim as stated says that both file checks are made whenever the scenario path
  exists. They are not when a query raises: below, the scenario folder exists, and
  the radiation query exits with status 1 (first world) or the interpreter path file is
  missing (second world); \<open>updateMessages\<close> raises, stores no message and never
  looks for the surface properties file.
\<close>

theorem updateMessages_checks_counterexample:
  "updateMessages [\<lparr>valueAsText = Some ''C:/s'', message = None\<rparr>]
     (sample_world (Some ''python.exe'') [''C:/s''] (locate_child 1))
   = (Inl (CalledProcessError 1
        [''python.exe'', ''-m'', ''cea.cli'', ''--scenario'', ''C:/s'', ''locate'', ''get_radiation'']
        (''C:/s/outputs/radiation.csv'' @ [CHR 0x0D, CHR 0x0A])),
      [\<lparr>valueAsText = Some ''C:/s'', message = None\<rparr>],
      (sample_world (Some ''python.exe'') [''C:/s''] (locate_child 1))
        \<lparr>events := [PathExists ''C:/s'',
           Spawn [''python.exe'', ''-m'', ''cea.cli'', ''--scenario'', ''C:/s'', ''locate'',
                  ''get_radiation'']]\<rparr>)
   \<and> updateMessages [\<lparr>valueAsText = Some ''C:/s'', message = None\<rparr>]
     (sample_world None [''C:/s''] (locate_child 0))
   = (Inl pth_not_found,
      [\<lparr>valueAsText = Some ''C:/s'', message = None\<rparr>],
      (sample_world None [''C:/s''] (locate_child 0))
        \<lparr>events := [PathExists ''C:/s'']\<rparr>)"
  by (simp add: updateMessages_def os_path_exists_def get_radiation_def cli_output_def
        get_python_exe_def check_output_def sample_world_def locate_child_def exits_with_def
        io_defs str_defs)

theorem updateMessages_checks_witness:
  "[\<lparr>valueAsText = Some ''C:/s'', message = None\<rparr>] \<noteq> []
   \<and> valueAsText ([\<lparr>valueAsText = Some ''C:/s'', message = None\<rparr>] ! 0) = Some ''C:/s''
   \<and> pth_file (sample_world (Some ''python.exe'')
         [''C:/s'', ''C:/s/outputs/radiation.csv''] (locate_child 0))
       = Some ''python.exe''
   \<and> updateMessages [\<lparr>valueAsText = Some ''C:/s'', message = None\<rparr>]
       (sample_world (Some ''python.exe'')
         [''C:/s'', ''C:/s/outputs/radiation.csv''] (locate_child 0))
     = (Inr (),
        [\<lparr>valueAsText = Some ''C:/s'',
          message = Some ''No radiation data found for scenario. Run radiation script first.''\<rparr>],
        (sample_world (Some ''python.exe'')
           [''C:/s'', ''C:/s/outputs/radiation.csv''] (locate_child 0))
          \<lparr>events := [PathExists ''C:/s'',
             Spawn [''python.exe'', ''-m'', ''cea.cli'', ''--scenario'', ''C:/s'', ''locate'',
                    ''get_radiation''],
             PathExists ''C:/s/outputs/radiation.csv'',
             Spawn [''python.exe'', ''-m'', ''cea.cli'', ''--scenario'', ''C:/s'', ''locate'',
                    ''get_surface_properties''],
             PathExists ''C:/s/outputs/properties.csv'']\<rparr>)"
  using updateMessages_checks [of "[\<lparr>valueAsText = Some ''C:/s'', message = None\<rparr>]"
      "''C:/s''"
      "sample_world (Some ''python.exe'')
         [''C:/s'', ''C:/s/outputs/radiation.csv''] (locate_child 0)"]
  by (simp add: sample_world_def locate_child_def exits_with_def str_defs Let_def
        setErrorMessage_def)

subsection \<open>Resolving the weather file\<close>

declare get_weather_names_inner.simps [simp del]

lemma get_weather_names_inner_Nil: "get_weather_names_inner [] = []"
  by (simp add: get_weather_names_inner.simps)

lemma get_weather_names_inner_Cons:
  "get_weather_names_inner (c # cs) =
     rstrip (fst (readline (c # cs))) # get_weather_names_inner (snd (readline (c # cs)))"
  by (subst get_weather_names_inner.simps) (simp add: Let_def readline_empty del: readline.simps)

lemma get_weather_names_run:
  assumes "pth_file w = Some content"
    and "startable w [strip content, ''-u'', ''-m'', ''cea.cli'', ''weather-files'']"
  shows "get_weather_names w =
     (Inr (get_weather_names_inner
        (stdout (cli w [strip content, ''-u'', ''-m'', ''cea.cli'', ''weather-files'']))),
      emit (Spawn [strip content, ''-u'', ''-m'', ''cea.cli'', ''weather-files'']) w)"
  using assms
  by (simp add: get_weather_names_def bind_io_def get_python_exe_def popen_def return_io_def
        Let_def)

lemma weather_child_names:
  "get_weather_names (sample_world (Some ''python.exe'') found weather_child) =
     (Inr [''Zug'', ''Zurich.epw''],
      emit (Spawn [''python.exe'', ''-u'', ''-m'', ''cea.cli'', ''weather-files''])
        (sample_world (Some ''python.exe'') found weather_child))"
  by (simp add: get_weather_names_run [of _ "''python.exe''"] sample_world_def weather_child_def
        exits_with_def str_defs get_weather_names_inner_Nil get_weather_names_inner_Cons)

text \<open>
  Claim C4. In \<open>DemandTool.execute\<close>, when the weather argument is neither in the
  list \<open>get_weather_names()\<close> returned nor an existing path that ends in \<open>.epw\<close>,
  the weather path is what \<open>get_weather()\<close> without argument yields, that is the
  query \<open>weather-path default\<close>, and \<open>execute\<close> hands that result to
  \<open>run_cli\<close>.
\<close>

theorem execute_default_weather:
  assumes "get_weather_names w = (Inr names, w1)"
    and "name \<notin> set names"
    and "\<not> (path_exists w1 name \<and> endswith name ''.epw'')"
    and "2 \<le> length parameters"
    and "valueAsText (parameters ! 1) = Some name"
  shows "execute_weather_path (Some name) w = get_weather None (emit (PathExists name) w1)
       \<and> get_weather None = cli_output [] [''weather-path'', ''default'']
       \<and> execute parameters w =
           bind_run (get_weather None)
             (\<lambda>weather_path.
                run_cli (valueAsText (parameters ! 0)) [''demand'', ''--weather'', weather_path])
             (emit (PathExists name) w1)"
  using assms
  by (auto simp add: execute_def execute_weather_path_def bind_io_def bind_run_def
        os_path_exists_def get_weather_def Let_def)

text \<open>
  Claim C5, as amended. In \<open>DemandTool.execute\<close>, a weather argument that is an
  existing path ending in \<open>.epw\<close> and is not one of the registered weather names is
  the weather path, unchanged, and goes to \<open>run_cli\<close> as it is. The test for a
  registered name comes first in the source, so the amendment cannot be dropped.
\<close>

theorem execute_epw_path:
  assumes "get_weather_names w = (Inr names, w1)"
    and "name \<notin> set names"
    and "path_exists w1 name"
    and "endswith name ''.epw''"
    and "2 \<le> length parameters"
    and "valueAsText (parameters ! 1) = Some name"
  shows "execute_weather_path (Some name) w = (Inr name, emit (PathExists name) w1)
       \<and> execute parameters w =
           run_cli (valueAsText (parameters ! 0)) [''demand'', ''--weather'', name]
             (emit (PathExists name) w1)"
  using assms
  by (auto simp add: execute_def execute_weather_path_def bind_io_def bind_run_def
        os_path_exists_def Let_def)

text \<open>
  The claim as stated fails when the argument is an existing \<open>.epw\<close> path and also
  a registered name: the first branch of the \<open>if\<close> wins and the lookup puts another
  path in its place.
\<close>

theorem execute_epw_path_counterexample:
  "endswith ''Zurich.epw'' ''.epw''
   \<and> path_exists (sample_world (Some ''python.exe'') [''Zurich.epw''] weather_child)
        ''Zurich.epw''
   \<and> fst (execute_weather_path (Some ''Zurich.epw'')
        (sample_world (Some ''python.exe'') [''Zurich.epw''] weather_child))
      = Inr ''C:/cea/weather/Zurich.epw.epw''"
  by (simp add: execute_weather_path_def bind_io_def weather_child_names get_weather_def
        endswith_def)
     (simp add: cli_output_def get_python_exe_def check_output_def io_defs sample_world_def
        weather_child_def exits_with_def str_defs)

theorem execute_default_weather_witness:
  "get_weather_names (sample_world (Some ''python.exe'') [] weather_child)
     = (Inr [''Zug'', ''Zurich.epw''],
        emit (Spawn [''python.exe'', ''-u'', ''-m'', ''cea.cli'', ''weather-files''])
          (sample_world (Some ''python.exe'') [] weather_child))
   \<and> ''Paris'' \<notin> set [''Zug'', ''Zurich.epw'']
   \<and> \<not> (path_exists
           (emit (Spawn [''python.exe'', ''-u'', ''-m'', ''cea.cli'', ''weather-files''])
              (sample_world (Some ''python.exe'') [] weather_child)) ''Paris''
         \<and> endswith ''Paris'' ''.epw'')
   \<and> fst (execute_weather_path (Some ''Paris'')
         (sample_world (Some ''python.exe'') [] weather_child))
       = Inr ''C:/cea/weather/default.epw''
   \<and> fst (get_weather None (sample_world (Some ''python.exe'') [] weather_child))
       = Inr ''C:/cea/weather/default.epw''"
proof -
  have names: "''Paris'' \<notin> set [''Zug'', ''Zurich.epw'']"
    by simp
  have absent: "\<not> (path_exists
           (emit (Spawn [''python.exe'', ''-u'', ''-m'', ''cea.cli'', ''weather-files''])
              (sample_world (Some ''python.exe'') [] weather_child)) ''Paris''
         \<and> endswith ''Paris'' ''.epw'')"
    by (simp add: sample_world_def emit_def)
  have params: "2 \<le> length [\<lparr>valueAsText = Some ''C:/s'', message = None\<rparr>,
      \<lparr>valueAsText = Some ''Paris'', message = None\<rparr>]"
    "valueAsText ([\<lparr>valueAsText = Some ''C:/s'', message = None\<rparr>,
      \<lparr>valueAsText = Some ''Paris'', message = None\<rparr>] ! 1) = Some ''Paris''"
    by simp_all
  have default: "fst (get_weather None w) = Inr ''C:/cea/weather/default.epw''"
    if "pth_file w = Some ''python.exe''" "cli w = weather_child" "can_start w ''python.exe''"
    for w
    using that
    by (simp add: get_weather_def cli_output_def get_python_exe_def check_output_def io_defs
          weather_child_def exits_with_def str_defs)
  have "fst (execute_weather_path (Some ''Paris'')
         (sample_world (Some ''python.exe'') [] weather_child))
       = fst (get_weather None (emit (PathExists ''Paris'')
           (emit (Spawn [''python.exe'', ''-u'', ''-m'', ''cea.cli'', ''weather-files''])
              (sample_world (Some ''python.exe'') [] weather_child))))"
    using execute_default_weather [OF weather_child_names names absent params] by simp
  also have "\<dots> = Inr ''C:/cea/weather/default.epw''"
    by (rule default) (simp_all add: sample_world_def emit_def)
  finally have resolved: "fst (execute_weather_path (Some ''Paris'')
         (sample_world (Some ''python.exe'') [] weather_child))
       = Inr ''C:/cea/weather/default.epw''" .
  have lookup: "fst (get_weather None
         (sample_world (Some ''python.exe'') [] weather_child))
       = Inr ''C:/cea/weather/default.epw''"
    by (rule default) (simp_all add: sample_world_def)
  show ?thesis
    using weather_child_names [of "[]"] names absent resolved lookup
    by blast
qed

theorem execute_epw_path_witness:
  "get_weather_names
     (sample_world (Some ''python.exe'') [''C:/my/own.epw''] weather_child)
     = (Inr [''Zug'', ''Zurich.epw''],
        emit (Spawn [''python.exe'', ''-u'', ''-m'', ''cea.cli'', ''weather-files''])
          (sample_world (Some ''python.exe'') [''C:/my/own.epw''] weather_child))
   \<and> ''C:/my/own.epw'' \<notin> set [''Zug'', ''Zurich.epw'']
   \<and> path_exists
         (emit (Spawn [''python.exe'', ''-u'', ''-m'', ''cea.cli'', ''weather-files''])
            (sample_world (Some ''python.exe'') [''C:/my/own.epw'']
               weather_child))
         ''C:/my/own.epw''
   \<and> endswith ''C:/my/own.epw'' ''.epw''
   \<and> fst (execute_weather_path (Some ''C:/my/own.epw'')
         (sample_world (Some ''python.exe'') [''C:/my/own.epw''] weather_child))
       = Inr ''C:/my/own.epw''"
proof -
  have names: "''C:/my/own.epw'' \<notin> set [''Zug'', ''Zurich.epw'']"
    by simp
  have found: "path_exists
         (emit (Spawn [''python.exe'', ''-u'', ''-m'', ''cea.cli'', ''weather-files''])
            (sample_world (Some ''python.exe'') [''C:/my/own.epw'']
               weather_child))
         ''C:/my/own.epw''"
    by (simp add: sample_world_def emit_def)
  have epw: "endswith ''C:/my/own.epw'' ''.epw''"
    by (simp add: endswith_def)
  have params: "2 \<le> length [\<lparr>valueAsText = Some ''C:/s'', message = None\<rparr>,
      \<lparr>valueAsText = Some ''C:/my/own.epw'', message = None\<rparr>]"
    "valueAsText ([\<lparr>valueAsText = Some ''C:/s'', message = None\<rparr>,
      \<lparr>valueAsText = Some ''C:/my/own.epw'', message = None\<rparr>] ! 1) = Some ''C:/my/own.epw''"
    by simp_all
  have resolved: "fst (execute_weather_path (Some ''C:/my/own.epw'')
         (sample_world (Some ''python.exe'') [''C:/my/own.epw''] weather_child))
       = Inr ''C:/my/own.epw''"
    using execute_epw_path [OF weather_child_names names found epw params] by simp
  show ?thesis
    using weather_child_names [of "[''C:/my/own.epw'']"] names found epw resolved
    by blast
qed

subsection \<open>The log file\<close>

lemma new_events_append [simp]: "new_events w (w'\<lparr>events := events w @ es\<rparr>) = es"
  by (simp add: new_events_def)

text \<open>
  Claim C9, as amended. A call of \<open>add_message\<close> whose message needs no formatting
  (no keyword arguments, as in every call of this module) or whose formatting succeeds
  makes exactly one write, of the message, to \<open>cea.log\<close> in the temporary
  directory; the file is opened in append mode, so its earlier content stays in front
  of the message, and no other file changes. A call whose formatting raises writes
  nothing and leaves the world as it was.
\<close>

theorem add_message_appends:
  "(let log_file = os_path_join (tempdir w) ''cea.log'';
        result = add_message msg kwargs w
    in case (if kwargs \<noteq> [] then py_format w msg kwargs else Some msg) of
         None \<Rightarrow> result = (Inl FormatError, w)
       | Some m \<Rightarrow>
           fst result = Inr ()
           \<and> new_events w (snd result) = [AddMessage m, LogAppend log_file m]
           \<and> files (snd result) log_file = files w log_file @ m
           \<and> (\<forall>path. path \<noteq> log_file \<longrightarrow> files (snd result) path = files w path))"
  by (simp add: add_message_def Let_def emit_def new_events_def split: option.split)

text \<open>
  The claim as stated speaks of every call. The call
  \<open>add_message('%(x)s', y='1')\<close> raises in \<open>msg %= kwargs\<close>, before the log file
  is opened: it makes no write at all.
\<close>

theorem add_message_appends_counterexample:
  "add_message ''%(x)s'' [(''y'', ''1'')]
     (sample_world (Some ''python.exe'') [] demand_child)
   = (Inl FormatError,
      sample_world (Some ''python.exe'') [] demand_child)"
  by (simp add: add_message_def sample_world_def)

theorem add_message_appends_witness:
  "fst (add_message ''Done'' []
     ((sample_world (Some ''python.exe'') [] demand_child)
        \<lparr>files := (\<lambda>path. ''earlier'')\<rparr>)) = Inr ()
   \<and> new_events
       ((sample_world (Some ''python.exe'') [] demand_child)
          \<lparr>files := (\<lambda>path. ''earlier'')\<rparr>)
       (snd (add_message ''Done'' []
          ((sample_world (Some ''python.exe'') [] demand_child)
             \<lparr>files := (\<lambda>path. ''earlier'')\<rparr>)))
     = [AddMessage ''Done'', LogAppend (''C:/Temp'' @ [CHR 0x5C] @ ''cea.log'') ''Done'']
   \<and> files (snd (add_message ''Done'' []
          ((sample_world (Some ''python.exe'') [] demand_child)
             \<lparr>files := (\<lambda>path. ''earlier'')\<rparr>)))
        (''C:/Temp'' @ [CHR 0x5C] @ ''cea.log'') = ''earlierDone''
   \<and> files (snd (add_message ''Done'' []
          ((sample_world (Some ''python.exe'') [] demand_child)
             \<lparr>files := (\<lambda>path. ''earlier'')\<rparr>)))
        ''C:/Temp/other.log'' = ''earlier''"
  using add_message_appends [where msg = "''Done''" and kwargs = "[]" and w =
      "(sample_world (Some ''python.exe'') [] demand_child)
         \<lparr>files := (\<lambda>path. ''earlier'')\<rparr>"]
  by (simp add: Let_def sample_world_def os_path_join_def)

subsection \<open>What \<open>run_cli\<close> logs\<close>





lemma rstrip_Nil [simp]: "rstrip [] = []"
  by (simp add: rstrip_def)











section \<open>Properties of the network layout\<close>

lemma default_arcgis_db:
  "expanduser w
     (os_path_join (os_path_join (os_path_join ''~'' ''Documents'') ''ArcGIS'') ''Default.gdb'')
   = home w @ [CHR 0x5C] @ ''Documents'' @ [CHR 0x5C] @ ''ArcGIS'' @ [CHR 0x5C] @ ''Default.gdb''"
  by (simp add: expanduser_def os_path_join_def)

lemma call_stage_run:
  "call_stage c w =
     (case stage_error w c of None \<Rightarrow> Inr () | Some e \<Rightarrow> Inl e, w\<lparr>events := events w @ [Stage c]\<rparr>)"
  by (simp add: call_stage_def emit_def split: option.split)

lemma network_layout_run:
  "network_layout config locator plant_building_names input_path_name output_name_network
       optimization_flag w =
     (let output_substations_shp = get_temporary_file locator ''nodes_buildings.shp'';
          path_potential_network = get_temporary_file locator ''potential_network.shp'';
          type_network = network_type (network_layout_cfg config);
          substations =
            Calc_substation_location (get_zone_geometry locator) output_substations_shp
              (buildings (network_layout_cfg config));
          connectivity =
            Calc_connectivity_network
              (home w @ [CHR 0x5C] @ ''Documents'' @ [CHR 0x5C] @ ''ArcGIS'' @ [CHR 0x5C]
                 @ ''Default.gdb'')
              (get_electric_networks_folder locator @ ''/'' @ input_path_name @ ''.shp'')
              output_substations_shp path_potential_network;
          spanning_tree =
            Calc_steiner_spanning_tree
              \<lparr>s_path_potential_network = path_potential_network,
               s_output_network_folder =
                 get_input_network_folder locator type_network output_name_network,
               s_output_substations_shp = output_substations_shp,
               s_output_edges =
                 get_network_layout_edges_shapefile locator type_network output_name_network,
               s_output_nodes =
                 get_network_layout_nodes_shapefile locator type_network output_name_network,
               s_weight_field = ''Shape_Leng'',
               s_type_mat_default = type_mat (network_layout_cfg config),
               s_pipe_diameter_default = pipe_diameter (network_layout_cfg config),
               s_type_network = type_network,
               s_total_demand_location = get_total_demand locator,
               s_create_plant = create_plant (network_layout_cfg config),
               s_allow_looped_networks = allow_looped_networks (network_layout_cfg config),
               s_optimization_flag = optimization_flag,
               s_plant_building_names = plant_building_names,
               s_disconnected_building_names =
                 disconnected_buildings (thermal_network_cfg config)\<rparr>
      in case stage_error w substations of
           Some e \<Rightarrow> (Inl e, w\<lparr>events := events w @ [Stage substations]\<rparr>)
         | None \<Rightarrow>
             (case stage_error w connectivity of
                Some e \<Rightarrow> (Inl e, w\<lparr>events := events w @ [Stage substations, Stage connectivity]\<rparr>)
              | None \<Rightarrow>
                  (case stage_error w spanning_tree of Some e \<Rightarrow> Inl e | None \<Rightarrow> Inr (),
                   w\<lparr>events := events w
                      @ [Stage substations, Stage connectivity, Stage spanning_tree]\<rparr>)))"
  by (simp add: network_layout_def default_arcgis_db Let_def bind_io_def call_stage_run
        split: option.split)

text \<open>
  Claim C1, as amended. For every configuration, locator, list of plant buildings and
  input path name, \<open>network_layout\<close> calls the stage functions in the fixed order
  \<open>calc_substation_location\<close>, \<open>calc_connectivity_network\<close>,
  \<open>calc_steiner_spanning_tree\<close>, each at most once, and a stage only when the stages
  before it returned: when the first two stages return, all three are called exactly
  once each. The substations file the first stage writes is an input of the second
  and of the third, and the potential network file the second writes is an input of
  the third. An exception of a stage ends the call, with the trace cut there.
\<close>

theorem network_layout_stage_order:
  "(let result =
        network_layout config locator plant_building_names input_path_name output_name_network
          optimization_flag w;
        output_substations_shp = get_temporary_file locator ''nodes_buildings.shp'';
        path_potential_network = get_temporary_file locator ''potential_network.shp'';
        type_network = network_type (network_layout_cfg config);
        substations =
          Calc_substation_location (get_zone_geometry locator) output_substations_shp
            (buildings (network_layout_cfg config));
        connectivity =
          Calc_connectivity_network
            (home w @ [CHR 0x5C] @ ''Documents'' @ [CHR 0x5C] @ ''ArcGIS'' @ [CHR 0x5C]
               @ ''Default.gdb'')
            (get_electric_networks_folder locator @ ''/'' @ input_path_name @ ''.shp'')
            output_substations_shp path_potential_network;
        spanning_tree =
          Calc_steiner_spanning_tree
            \<lparr>s_path_potential_network = path_potential_network,
             s_output_network_folder =
               get_input_network_folder locator type_network output_name_network,
             s_output_substations_shp = output_substations_shp,
             s_output_edges =
               get_network_layout_edges_shapefile locator type_network output_name_network,
             s_output_nodes =
               get_network_layout_nodes_shapefile locator type_network output_name_network,
             s_weight_field = ''Shape_Leng'',
             s_type_mat_default = type_mat (network_layout_cfg config),
             s_pipe_diameter_default = pipe_diameter (network_layout_cfg config),
             s_type_network = type_network,
             s_total_demand_location = get_total_demand locator,
             s_create_plant = create_plant (network_layout_cfg config),
             s_allow_looped_networks = allow_looped_networks (network_layout_cfg config),
             s_optimization_flag = optimization_flag,
             s_plant_building_names = plant_building_names,
             s_disconnected_building_names =
               disconnected_buildings (thermal_network_cfg config)\<rparr>
    in new_events w (snd result) =
         (if stage_error w substations \<noteq> None then [Stage substations]
          else if stage_error w connectivity \<noteq> None
          then [Stage substations, Stage connectivity]
          else [Stage substations, Stage connectivity, Stage spanning_tree])
       \<and> fst result =
           (case stage_error w substations of
              Some e \<Rightarrow> Inl e
            | None \<Rightarrow>
                (case stage_error w connectivity of
                   Some e \<Rightarrow> Inl e
                 | None \<Rightarrow>
                     (case stage_error w spanning_tree of Some e \<Rightarrow> Inl e | None \<Rightarrow> Inr ()))))"
  by (simp add: network_layout_run Let_def new_events_def split: option.split)

text \<open>
  Claim C8, as amended. Whatever the configuration and the optimization flag, no call
  of \<open>network_layout\<close> invokes \<open>calc_minimum_spanning_tree\<close>. When the first two
  stages return, the spanning tree is computed by exactly one call of
  \<open>calc_steiner_spanning_tree\<close>, which receives the optimization flag; when one of
  them raises, no spanning tree is computed at all.
\<close>

theorem network_layout_steiner_only:
  "(let result =
          network_layout config locator plant_building_names input_path_name output_name_network
            optimization_flag w;
        calls = new_events w (snd result);
        output_substations_shp = get_temporary_file locator ''nodes_buildings.shp'';
        path_potential_network = get_temporary_file locator ''potential_network.shp'';
        type_network = network_type (network_layout_cfg config);
        substations =
          Calc_substation_location (get_zone_geometry locator) output_substations_shp
            (buildings (network_layout_cfg config));
        connectivity =
          Calc_connectivity_network
            (home w @ [CHR 0x5C] @ ''Documents'' @ [CHR 0x5C] @ ''ArcGIS'' @ [CHR 0x5C]
               @ ''Default.gdb'')
            (get_electric_networks_folder locator @ ''/'' @ input_path_name @ ''.shp'')
            output_substations_shp path_potential_network;
        spanning_tree =
          Calc_steiner_spanning_tree
            \<lparr>s_path_potential_network = path_potential_network,
             s_output_network_folder =
               get_input_network_folder locator type_network output_name_network,
             s_output_substations_shp = output_substations_shp,
             s_output_edges =
               get_network_layout_edges_shapefile locator type_network output_name_network,
             s_output_nodes =
               get_network_layout_nodes_shapefile locator type_network output_name_network,
             s_weight_field = ''Shape_Leng'',
             s_type_mat_default = type_mat (network_layout_cfg config),
             s_pipe_diameter_default = pipe_diameter (network_layout_cfg config),
             s_type_network = type_network,
             s_total_demand_location = get_total_demand locator,
             s_create_plant = create_plant (network_layout_cfg config),
             s_allow_looped_networks = allow_looped_networks (network_layout_cfg config),
             s_optimization_flag = optimization_flag,
             s_plant_building_names = plant_building_names,
             s_disconnected_building_names =
               disconnected_buildings (thermal_network_cfg config)\<rparr>
    in \<not> list_ex is_minimum_spanning_tree_call calls
       \<and> filter is_steiner_call calls =
           (if stage_error w substations = None \<and> stage_error w connectivity = None
            then [Stage spanning_tree] else []))"
  by (simp add: network_layout_run Let_def new_events_def split: option.split)

text \<open>
  The claim as stated says that every invocation computes the spanning tree with
  \<open>calc_steiner_spanning_tree\<close>. When \<open>calc_connectivity_network\<close> raises, the call
  ends after the second stage and no spanning tree stage is invoked, with the
  optimization flag set or not.
\<close>

theorem network_layout_steiner_only_counterexample:
  "network_layout sample_config sample_locator [''B1''] ''streets'' [] True
     ((sample_world None [] demand_child)\<lparr>stage_error := connectivity_fails\<rparr>)
   = (Inl (StageError ''streets.shp not found''),
      (sample_world None [] demand_child)
        \<lparr>stage_error := connectivity_fails,
         events := [Stage (Calc_substation_location ''C:/s/zone.shp''
                      ''C:/Temp/nodes_buildings.shp'' [''B1'', ''B2'']),
                    Stage (Calc_connectivity_network
                      (''C:/Users/cea'' @ [CHR 0x5C] @ ''Documents'' @ [CHR 0x5C] @ ''ArcGIS''
                         @ [CHR 0x5C] @ ''Default.gdb'')
                      ''C:/s/networks/streets.shp'' ''C:/Temp/nodes_buildings.shp''
                      ''C:/Temp/potential_network.shp'')]\<rparr>)"
  by (simp add: network_layout_def Let_def bind_io_def call_stage_def emit_def
        expanduser_def os_path_join_def
        sample_world_def sample_config_def sample_locator_def connectivity_fails_def)

text \<open>
  The claim as stated says that every call invokes the three stages. When
  \<open>calc_substation_location\<close> raises, the exception leaves \<open>network_layout\<close> and
  the other two stages are never called.
\<close>

theorem network_layout_stage_order_counterexample:
  "network_layout sample_config sample_locator [] ''streets'' [] False
     ((sample_world None [] demand_child)
        \<lparr>stage_error := substations_fail\<rparr>)
   = (Inl (StageError ''zone.shp not found''),
      (sample_world None [] demand_child)
        \<lparr>stage_error := substations_fail,
         events := [Stage (Calc_substation_location ''C:/s/zone.shp''
                      ''C:/Temp/nodes_buildings.shp'' [''B1'', ''B2''])]\<rparr>)"
  by (simp add: network_layout_def Let_def bind_io_def call_stage_def emit_def
        sample_world_def sample_config_def sample_locator_def substations_fail_def)

theorem network_layout_stage_order_witness:
  "new_events (sample_world None [] demand_child)
     (snd (network_layout sample_config sample_locator [''B1''] ''streets'' [] False
        (sample_world None [] demand_child)))
   = [Stage (Calc_substation_location ''C:/s/zone.shp'' ''C:/Temp/nodes_buildings.shp''
        [''B1'', ''B2'']),
      Stage (Calc_connectivity_network
        (''C:/Users/cea'' @ [CHR 0x5C] @ ''Documents'' @ [CHR 0x5C] @ ''ArcGIS'' @ [CHR 0x5C]
           @ ''Default.gdb'')
        ''C:/s/networks/streets.shp'' ''C:/Temp/nodes_buildings.shp''
        ''C:/Temp/potential_network.shp''),
      Stage (Calc_steiner_spanning_tree
        \<lparr>s_path_potential_network = ''C:/Temp/potential_network.shp'',
         s_output_network_folder = ''C:/s/DH'',
         s_output_substations_shp = ''C:/Temp/nodes_buildings.shp'',
         s_output_edges = ''C:/s/DH/edges.shp'',
         s_output_nodes = ''C:/s/DH/nodes.shp'',
         s_weight_field = ''Shape_Leng'',
         s_type_mat_default = ''T1'',
         s_pipe_diameter_default = 150,
         s_type_network = ''DH'',
         s_total_demand_location = ''C:/s/Total_demand.csv'',
         s_create_plant = True,
         s_allow_looped_networks = False,
         s_optimization_flag = False,
         s_plant_building_names = [''B1''],
         s_disconnected_building_names = [''B3'']\<rparr>)]
   \<and> fst (network_layout sample_config sample_locator [''B1''] ''streets'' [] False
        (sample_world None [] demand_child)) = Inr ()"
  using network_layout_stage_order [of sample_config sample_locator "[''B1'']" "''streets''"
      "[]" False "sample_world None [] demand_child"]
  by (simp add: Let_def sample_world_def sample_config_def sample_locator_def)

theorem network_layout_steiner_only_witness:
  "\<not> list_ex is_minimum_spanning_tree_call
       (new_events (sample_world None [] demand_child)
          (snd (network_layout sample_config sample_locator [''B1''] ''streets'' [] True
             (sample_world None [] demand_child))))
   \<and> filter is_steiner_call
       (new_events (sample_world None [] demand_child)
          (snd (network_layout sample_config sample_locator [''B1''] ''streets'' [] True
             (sample_world None [] demand_child))))
     = [Stage (Calc_steiner_spanning_tree
        \<lparr>s_path_potential_network = ''C:/Temp/potential_network.shp'',
         s_output_network_folder = ''C:/s/DH'',
         s_output_substations_shp = ''C:/Temp/nodes_buildings.shp'',
         s_output_edges = ''C:/s/DH/edges.shp'',
         s_output_nodes = ''C:/s/DH/nodes.shp'',
         s_weight_field = ''Shape_Leng'',
         s_type_mat_default = ''T1'',
         s_pipe_diameter_default = 150,
         s_type_network = ''DH'',
         s_total_demand_location = ''C:/s/Total_demand.csv'',
         s_create_plant = True,
         s_allow_looped_networks = False,
         s_optimization_flag = True,
         s_plant_building_names = [''B1''],
         s_disconnected_building_names = [''B3'']\<rparr>)]"
  using network_layout_steiner_only [of sample_config sample_locator "[''B1'']" "''streets''"
      "[]" True "sample_world None [] demand_child"]
  by (simp add: Let_def sample_world_def sample_config_def sample_locator_def)

end
